theory Spec2Isabelle
  imports Complex_Main "HOL-Library.Word"
begin

section \<open>JavaScript values used by the library\<close>

text \<open>
  Epoch timestamps, margins and lifetimes are JavaScript numbers holding integers, or
  \<open>NaN\<close> (what \<open>parseInt\<close> returns on a cookie without digits, and what adding
  \<open>undefined\<close> gives). Integer-valued numbers are modelled exactly, as \<open>int\<close>: the model
  is the code on the safe integer range of a double, where the arithmetic used here
  (one addition or subtraction, comparisons) is exact.
\<close>

datatype jsnum = NaN | Num int

definition js_add :: "jsnum \<Rightarrow> jsnum \<Rightarrow> jsnum" where
  "js_add a b = (case a of NaN \<Rightarrow> NaN | Num x \<Rightarrow> (case b of NaN \<Rightarrow> NaN | Num y \<Rightarrow> Num (x + y)))"

definition js_sub :: "jsnum \<Rightarrow> jsnum \<Rightarrow> jsnum" where
  "js_sub a b = (case a of NaN \<Rightarrow> NaN | Num x \<Rightarrow> (case b of NaN \<Rightarrow> NaN | Num y \<Rightarrow> Num (x - y)))"

text \<open>\<open>a >= b\<close>: every comparison with \<open>NaN\<close> is false.\<close>

definition js_ge :: "jsnum \<Rightarrow> jsnum \<Rightarrow> bool" where
  "js_ge a b = (case a of NaN \<Rightarrow> False | Num x \<Rightarrow> (case b of NaN \<Rightarrow> False | Num y \<Rightarrow> y \<le> x))"

text \<open>
  Truthiness, as \<open>!x\<close>, \<open>x && y\<close> and \<open>if (x)\<close> test it. A string that may be \<open>null\<close>
  or \<open>undefined\<close> is a \<open>string option\<close>: absent and the empty string are falsy. A
  number that may be \<open>null\<close> is a \<open>jsnum option\<close>: absent, \<open>0\<close> and \<open>NaN\<close> are falsy.
\<close>

definition truthy_str :: "string option \<Rightarrow> bool" where
  "truthy_str s = (case s of None \<Rightarrow> False | Some v \<Rightarrow> v \<noteq> [])"

definition truthy_num :: "jsnum option \<Rightarrow> bool" where
  "truthy_num n = (case n of None \<Rightarrow> False | Some NaN \<Rightarrow> False | Some (Num x) \<Rightarrow> x \<noteq> 0)"

text \<open>\<open>x ?? d\<close> on a number that may be \<open>null\<close>.\<close>

definition num_or :: "jsnum option \<Rightarrow> jsnum \<Rightarrow> jsnum" where
  "num_or n d = (case n of None \<Rightarrow> d | Some v \<Rightarrow> v)"

text \<open>\<open>x ?? d\<close> on a string that may be \<open>null\<close>.\<close>

definition str_or :: "string option \<Rightarrow> string \<Rightarrow> string" where
  "str_or s d = (case s of None \<Rightarrow> d | Some v \<Rightarrow> v)"

subsection \<open>Decimal numerals: \<open>toString\<close> and \<open>parseInt(s, 10)\<close>\<close>

definition digit_char :: "nat \<Rightarrow> char" where
  "digit_char d = char_of (48 + d)"

fun show_nat :: "nat \<Rightarrow> string" where
  "show_nat n = (if n < 10 then [digit_char n] else show_nat (n div 10) @ [digit_char (n mod 10)])"

definition num_toString :: "jsnum \<Rightarrow> string" where
  "num_toString n =
     (case n of
        NaN \<Rightarrow> ''NaN''
      | Num x \<Rightarrow> (if x < 0 then CHR ''-'' # show_nat (nat (- x)) else show_nat (nat x)))"

definition is_digit :: "char \<Rightarrow> bool" where
  "is_digit c = (48 \<le> (of_char c :: nat) \<and> (of_char c :: nat) \<le> 57)"

text \<open>The white space \<open>parseInt\<close> skips, among the characters a \<open>char\<close> can hold.\<close>

definition is_space :: "char \<Rightarrow> bool" where
  "is_space c = ((of_char c :: nat) \<in> {9, 10, 11, 12, 13, 32, 160})"

definition digits_value :: "string \<Rightarrow> int" where
  "digits_value ds = foldl (\<lambda>acc c. 10 * acc + (int (of_char c) - 48)) 0 ds"

text \<open>
  \<open>parseInt(s, 10)\<close>: leading white space, an optional sign, then the longest run of
  digits; \<open>NaN\<close> when there is none. The value is the exact integer: beyond the safe
  integer range the code's double is the nearest representable number instead.
\<close>

definition parseInt :: "string \<Rightarrow> jsnum" where
  "parseInt s =
     (let t = dropWhile is_space s;
          neg = (t \<noteq> [] \<and> hd t = CHR ''-'');
          u = (if t \<noteq> [] \<and> (hd t = CHR ''-'' \<or> hd t = CHR ''+'') then tl t else t);
          ds = takeWhile is_digit u
      in if ds = [] then NaN
         else Num (if neg then - digits_value ds else digits_value ds))"

section \<open>oidc/jwt.ts: token expiry\<close>

text \<open>
  \<open>Date.now()\<close> is a parameter: the clock reading in epoch milliseconds. One reading
  stands for the whole of a call.
\<close>

definition epoch_seconds :: "int \<Rightarrow> int" where
  "epoch_seconds date_now = date_now div 1000"

text \<open>
  \<open>isTokenExpired(expiresAt, marginSeconds = 60)\<close>: the margin is optional, \<open>None\<close>
  taking the default.
\<close>

definition isTokenExpired :: "int \<Rightarrow> jsnum \<Rightarrow> jsnum option \<Rightarrow> bool" where
  "isTokenExpired date_now expiresAt marginSeconds =
     (let margin = num_or marginSeconds (Num 60);
          now = Num (epoch_seconds date_now)
      in js_ge now (js_sub expiresAt margin))"

section \<open>oidc/pkce.ts: the code verifier\<close>

text \<open>
  \<open>btoa\<close> is the platform's base64 encoder (RFC 4648, with padding) over a binary
  string, one character per byte.
\<close>

definition b64_alphabet :: string where
  "b64_alphabet = ''ABCDEFGHIJKLMNOPQRSTUVWXYZabcdefghijklmnopqrstuvwxyz0123456789+/''"

definition b64_char :: "nat \<Rightarrow> char" where
  "b64_char i = b64_alphabet ! (i mod 64)"

fun btoa :: "string \<Rightarrow> string" where
  "btoa [] = []"
| "btoa [a] =
     (let x = (of_char a :: nat)
      in [b64_char (x div 4), b64_char ((x mod 4) * 16), CHR ''='', CHR ''=''])"
| "btoa [a, b] =
     (let x = (of_char a :: nat); y = (of_char b :: nat)
      in [b64_char (x div 4), b64_char ((x mod 4) * 16 + y div 16),
          b64_char ((y mod 16) * 4), CHR ''=''])"
| "btoa (a # b # c # rest) =
     (let x = (of_char a :: nat); y = (of_char b :: nat); z = (of_char c :: nat)
      in [b64_char (x div 4), b64_char ((x mod 4) * 16 + y div 16),
          b64_char ((y mod 16) * 4 + z div 64), b64_char (z mod 64)] @ btoa rest)"

text \<open>\<open>s.replace(/c/g, d)\<close> for a single character \<open>c\<close>.\<close>

definition replace_all :: "char \<Rightarrow> char \<Rightarrow> string \<Rightarrow> string" where
  "replace_all c d s = map (\<lambda>x. if x = c then d else x) s"

text \<open>\<open>s.replace(/=+$/, '')\<close>: the trailing run of \<open>=\<close> is removed.\<close>

definition strip_padding :: "string \<Rightarrow> string" where
  "strip_padding s = rev (dropWhile (\<lambda>x. x = CHR ''='') (rev s))"

definition base64UrlEncode :: "8 word list \<Rightarrow> string" where
  "base64UrlEncode buffer =
     (let binary = map (\<lambda>b. char_of (unat b)) buffer
      in strip_padding (replace_all CHR ''/'' CHR ''_'' (replace_all CHR ''+'' CHR ''-'' (btoa binary))))"

datatype error =
    QuotaExceeded
  | FetchFailed
  | JsonFailed
  | TypeError
  | JWTInvalid
  | DiscoveryFailed string nat string
  | MissingEndpoint string string
  | TokenExchangeFailed nat string string
  | TokenRefreshFailed nat string string

text \<open>
  \<open>generateCodeVerifier(length = 64)\<close>. The secure random source is a parameter: the
  byte it writes at each index of the array. \<open>crypto.getRandomValues\<close> refuses an
  array of more than 65536 bytes.
\<close>

definition generateCodeVerifier :: "(nat \<Rightarrow> 8 word) \<Rightarrow> nat option \<Rightarrow> error + string" where
  "generateCodeVerifier random_byte len =
     (let length = (case len of None \<Rightarrow> 64 | Some n \<Rightarrow> n);
          array = map random_byte [0..<length]
      in if 65536 < length then Inl QuotaExceeded else Inr (base64UrlEncode array))"

section \<open>types.ts: the data model\<close>

text \<open>
  An optional field (\<open>field?: T\<close>) and a field the provider may leave out of a JSON
  body are options; \<open>None\<close> is \<open>undefined\<close>.
\<close>

record KeycloakConfig =
  url :: string
  realm :: string
  clientId :: string
  clientSecret :: "string option"
  scopes :: "string list option"
  redirectUri :: "string option"
  postLogoutRedirectUri :: "string option"
  authBasePath :: "string option"
  cookieName :: "string option"
  refreshMarginSeconds :: "jsnum option"

record OIDCEndpoints =
  authorization_endpoint :: "string option"
  token_endpoint :: "string option"
  userinfo_endpoint :: "string option"
  end_session_endpoint :: "string option"
  jwks_uri :: "string option"
  introspection_endpoint :: "string option"
  issuer :: "string option"

text \<open>
  The fields of the token endpoint's answer that the library reads (\<open>scope\<close> and
  \<open>session_state\<close> are never read). \<open>KeycloakTokens\<close> has the same fields and the two
  absolute expiry timestamps.
\<close>

text \<open>
  A lifetime in the answer: missing (\<open>undefined\<close>), the JSON \<open>null\<close>, or a number of
  seconds. In an addition \<open>undefined\<close> counts as \<open>NaN\<close> and \<open>null\<close> as \<open>0\<close>.
\<close>

datatype lifetime = Missing | JsonNull | Seconds int

definition lifetime_number :: "lifetime \<Rightarrow> jsnum" where
  "lifetime_number l = (case l of Missing \<Rightarrow> NaN | JsonNull \<Rightarrow> Num 0 | Seconds n \<Rightarrow> Num n)"

record TokenResponse =
  access_token :: "string option"
  refresh_token :: "string option"
  id_token :: "string option"
  token_type :: "string option"
  expires_in :: lifetime
  refresh_expires_in :: lifetime

record KeycloakTokens = TokenResponse +
  access_token_expires_at :: jsnum
  refresh_token_expires_at :: jsnum

text \<open>
  A decoded JWT payload is an object of JSON values, looked up by key. An object inside
  a value lists its properties, each key once.
\<close>

datatype json = JNull | JBool bool | JNum rat | JStr string | JArr "json list"
  | JObj "(string \<times> json) list"

type_synonym claims = "string \<rightharpoonup> json"

record KeycloakUser =
  sub :: "json option"
  name :: "json option"
  given_name :: "json option"
  family_name :: "json option"
  preferred_username :: "json option"
  email :: "json option"
  email_verified :: "json option"
  roles :: "json list"
  realm_roles :: json
  client_roles :: json
  raw_claims :: claims

record KeycloakSession =
  user :: KeycloakUser
  accessToken :: "string option"
  idToken :: "string option"
  accessTokenExpiresAt :: jsnum
  refreshTokenExpiresAt :: jsnum

section \<open>The world outside the library\<close>

text \<open>
  What \<open>fetch\<close> resolves to: the status line, the body as text, and the body as
  \<open>response.json()\<close> gives it (\<open>None\<close> when parsing throws or the body is \<open>null\<close>, so
  that reading a property of it throws). A discovery document is read by property name;
  its properties are strings, and a property that is missing is \<open>None\<close>. The answer of
  the token endpoint is read as a \<open>TokenResponse\<close>.
\<close>

record 'a http_response =
  status :: nat
  statusText :: string
  body_text :: string
  body_json :: "'a option"

definition response_ok :: "'a http_response \<Rightarrow> bool" where
  "response_ok r = (200 \<le> status r \<and> status r \<le> 299)"

text \<open>
  The environment of one call: the clock (\<open>Date.now()\<close>, epoch milliseconds), the
  network (\<open>None\<close>: \<open>fetch\<close> rejects), the \<open>jose\<close> decoder (\<open>None\<close>: \<open>decodeJwt\<close>
  throws) and the platform's URL resolution \<open>new URL(path, base).toString()\<close>
  (\<open>None\<close>: it throws).
\<close>

record env =
  now_ms :: int
  fetch_discovery :: "string \<Rightarrow> (string \<rightharpoonup> string) http_response option"
  fetch_token :: "string \<Rightarrow> (string \<times> string) list \<Rightarrow> TokenResponse http_response option"
  decodeJwt :: "string \<Rightarrow> claims option"
  resolve_url :: "string \<Rightarrow> string \<Rightarrow> string option"

text \<open>
  What a call does to the outside is recorded in order: every request sent, every write
  to the cookie store (with the cookie's \<open>httpOnly\<close> and \<open>maxAge\<close>; the other
  attributes are not kept), and every entry into one of the two token exchanges. The
  state a call works on is the cookie store, the module's discovery cache and this
  record.
\<close>

datatype event =
    HttpGet string
  | HttpPost string "(string \<times> string) list"
  | SetCookie string string bool lifetime
  | DeleteCookie string
  | CallExchangeCode string string string
  | CallRefresh string

record cache_entry =
  endpoints :: OIDCEndpoints
  cache_expiresAt :: int

record world =
  jar :: "string \<rightharpoonup> string"
  cache :: "string \<rightharpoonup> cache_entry"
  trace :: "event list"

definition emit :: "event \<Rightarrow> world \<Rightarrow> world" where
  "emit ev w = w\<lparr>trace := trace w @ [ev]\<rparr>"

definition is_network :: "event \<Rightarrow> bool" where
  "is_network ev = (case ev of HttpGet _ \<Rightarrow> True | HttpPost _ _ \<Rightarrow> True | _ \<Rightarrow> False)"

definition is_store_write :: "event \<Rightarrow> bool" where
  "is_store_write ev = (case ev of SetCookie _ _ _ _ \<Rightarrow> True | DeleteCookie _ \<Rightarrow> True | _ \<Rightarrow> False)"

definition is_exchange_call :: "event \<Rightarrow> bool" where
  "is_exchange_call ev = (case ev of CallExchangeCode _ _ _ \<Rightarrow> True | _ \<Rightarrow> False)"

definition is_refresh_call :: "event \<Rightarrow> bool" where
  "is_refresh_call ev = (case ev of CallRefresh _ \<Rightarrow> True | _ \<Rightarrow> False)"

section \<open>oidc/discovery.ts\<close>

definition CACHE_TTL_MS :: int where
  "CACHE_TTL_MS = 5 * 60 * 1000"

definition getRealmUrl :: "string \<Rightarrow> string \<Rightarrow> string" where
  "getRealmUrl u r =
     (let base = (if u \<noteq> [] \<and> last u = CHR ''/'' then butlast u else u)
      in base @ ''/realms/'' @ r)"

definition requiredFields :: "string list" where
  "requiredFields =
     [''authorization_endpoint'', ''token_endpoint'', ''end_session_endpoint'', ''jwks_uri'',
      ''issuer'']"

text \<open>\<open>endpoints[field]\<close>, for the field names the loop reads.\<close>

definition endpoint_field :: "OIDCEndpoints \<Rightarrow> string \<Rightarrow> string option" where
  "endpoint_field eps field =
     (if field = ''authorization_endpoint'' then authorization_endpoint eps
      else if field = ''token_endpoint'' then token_endpoint eps
      else if field = ''userinfo_endpoint'' then userinfo_endpoint eps
      else if field = ''end_session_endpoint'' then end_session_endpoint eps
      else if field = ''jwks_uri'' then jwks_uri eps
      else if field = ''introspection_endpoint'' then introspection_endpoint eps
      else if field = ''issuer'' then issuer eps
      else None)"

definition cache_lookup :: "env \<Rightarrow> world \<Rightarrow> string \<Rightarrow> OIDCEndpoints option" where
  "cache_lookup e w cacheKey =
     (case cache w cacheKey of
        None \<Rightarrow> None
      | Some cached \<Rightarrow> if now_ms e < cache_expiresAt cached then Some (endpoints cached) else None)"

definition discoverEndpoints ::
  "env \<Rightarrow> string \<Rightarrow> string \<Rightarrow> world \<Rightarrow> (error + OIDCEndpoints) \<times> world" where
  "discoverEndpoints e u r w =
     (let cacheKey = u @ '':'' @ r
      in case cache_lookup e w cacheKey of
           Some eps \<Rightarrow> (Inr eps, w)
         | None \<Rightarrow>
             (let realmUrl = getRealmUrl u r;
                  wellKnownUrl = realmUrl @ ''/.well-known/openid-configuration'';
                  w1 = emit (HttpGet wellKnownUrl) w
              in case fetch_discovery e wellKnownUrl of
                   None \<Rightarrow> (Inl FetchFailed, w1)
                 | Some response \<Rightarrow>
                     if \<not> response_ok response
                     then (Inl (DiscoveryFailed wellKnownUrl (status response) (statusText response)), w1)
                     else (case body_json response of
                             None \<Rightarrow> (Inl JsonFailed, w1)
                           | Some config \<Rightarrow>
                               (let eps = \<lparr>authorization_endpoint = config ''authorization_endpoint'',
                                           token_endpoint = config ''token_endpoint'',
                                           userinfo_endpoint = config ''userinfo_endpoint'',
                                           end_session_endpoint = config ''end_session_endpoint'',
                                           jwks_uri = config ''jwks_uri'',
                                           introspection_endpoint = config ''introspection_endpoint'',
                                           issuer = config ''issuer''\<rparr>
                                in case find (\<lambda>field. \<not> truthy_str (endpoint_field eps field)) requiredFields of
                                     Some field \<Rightarrow> (Inl (MissingEndpoint field wellKnownUrl), w1)
                                   | None \<Rightarrow>
                                       (Inr eps,
                                        w1\<lparr>cache := (cache w1)(cacheKey \<mapsto>
                                              \<lparr>endpoints = eps,
                                               cache_expiresAt = now_ms e + CACHE_TTL_MS\<rparr>)\<rparr>)))))"

section \<open>oidc/token.ts\<close>

text \<open>
  \<open>now + response.expires_in\<close>: adding \<open>undefined\<close> gives \<open>NaN\<close>, adding \<open>null\<close>
  gives \<open>now\<close>.
\<close>

definition normalizeTokenResponse :: "env \<Rightarrow> TokenResponse \<Rightarrow> KeycloakTokens" where
  "normalizeTokenResponse e response =
     (let now = Num (epoch_seconds (now_ms e))
      in \<lparr>access_token = access_token response,
          refresh_token = refresh_token response,
          id_token = id_token response,
          token_type = token_type response,
          expires_in = expires_in response,
          refresh_expires_in = refresh_expires_in response,
          access_token_expires_at = js_add now (lifetime_number (expires_in response)),
          refresh_token_expires_at = js_add now (lifetime_number (refresh_expires_in response))\<rparr>)"

text \<open>
  The form body is the list of its parameters. \<open>fetch\<close> of a token endpoint that is
  \<open>undefined\<close> throws before anything is sent.
\<close>

definition exchangeCodeForTokens ::
  "env \<Rightarrow> KeycloakConfig \<Rightarrow> string \<Rightarrow> string \<Rightarrow> string \<Rightarrow> world \<Rightarrow> (error + KeycloakTokens) \<times> world" where
  "exchangeCodeForTokens e config code codeVerifier redirect w0 =
     (case discoverEndpoints e (url config) (realm config) (emit (CallExchangeCode code codeVerifier redirect) w0) of
        (Inl err, w1) \<Rightarrow> (Inl err, w1)
      | (Inr eps, w1) \<Rightarrow>
          (let body0 = [(''grant_type'', ''authorization_code''), (''client_id'', clientId config),
                        (''code'', code), (''redirect_uri'', redirect),
                        (''code_verifier'', codeVerifier)];
               body = (if truthy_str (clientSecret config)
                       then body0 @ [(''client_secret'', str_or (clientSecret config) [])]
                       else body0)
           in case token_endpoint eps of
                None \<Rightarrow> (Inl TypeError, w1)
              | Some target \<Rightarrow>
                  (let w2 = emit (HttpPost target body) w1
                   in case fetch_token e target body of
                        None \<Rightarrow> (Inl FetchFailed, w2)
                      | Some response \<Rightarrow>
                          if \<not> response_ok response
                          then (Inl (TokenExchangeFailed (status response) (statusText response)
                                       (body_text response)), w2)
                          else (case body_json response of
                                  None \<Rightarrow> (Inl JsonFailed, w2)
                                | Some tokenResponse \<Rightarrow>
                                    (Inr (normalizeTokenResponse e tokenResponse), w2)))))"

definition refreshAccessToken ::
  "env \<Rightarrow> KeycloakConfig \<Rightarrow> string \<Rightarrow> world \<Rightarrow> (error + KeycloakTokens) \<times> world" where
  "refreshAccessToken e config refreshToken w0 =
     (case discoverEndpoints e (url config) (realm config) (emit (CallRefresh refreshToken) w0) of
        (Inl err, w1) \<Rightarrow> (Inl err, w1)
      | (Inr eps, w1) \<Rightarrow>
          (let body0 = [(''grant_type'', ''refresh_token''), (''client_id'', clientId config),
                        (''refresh_token'', refreshToken)];
               body = (if truthy_str (clientSecret config)
                       then body0 @ [(''client_secret'', str_or (clientSecret config) [])]
                       else body0)
           in case token_endpoint eps of
                None \<Rightarrow> (Inl TypeError, w1)
              | Some target \<Rightarrow>
                  (let w2 = emit (HttpPost target body) w1
                   in case fetch_token e target body of
                        None \<Rightarrow> (Inl FetchFailed, w2)
                      | Some response \<Rightarrow>
                          if \<not> response_ok response
                          then (Inl (TokenRefreshFailed (status response) (statusText response)
                                       (body_text response)), w2)
                          else (case body_json response of
                                  None \<Rightarrow> (Inl JsonFailed, w2)
                                | Some tokenResponse \<Rightarrow>
                                    (Inr (normalizeTokenResponse e tokenResponse), w2)))))"

section \<open>session/cookies.ts\<close>

text \<open>
  The cookie store maps a cookie's name to its value. A value that is \<open>undefined\<close> is
  written as the empty string.
\<close>

record CookieNames =
  nm_accessToken :: string
  nm_refreshToken :: string
  nm_idToken :: string
  nm_expiresAt :: string
  nm_refreshExpiresAt :: string
  nm_codeVerifier :: string
  nm_state :: string
  nm_returnTo :: string

definition getCookieNames :: "string \<Rightarrow> CookieNames" where
  "getCookieNames prefix =
     \<lparr>nm_accessToken = prefix @ ''_at'',
      nm_refreshToken = prefix @ ''_rt'',
      nm_idToken = prefix @ ''_id'',
      nm_expiresAt = prefix @ ''_exp'',
      nm_refreshExpiresAt = prefix @ ''_rexp'',
      nm_codeVerifier = prefix @ ''_cv'',
      nm_state = prefix @ ''_state'',
      nm_returnTo = prefix @ ''_return''\<rparr>"

definition cookie_set :: "string \<Rightarrow> string option \<Rightarrow> bool \<Rightarrow> lifetime \<Rightarrow> world \<Rightarrow> world" where
  "cookie_set nm v httpOnly maxAge w =
     emit (SetCookie nm (str_or v []) httpOnly maxAge) (w\<lparr>jar := (jar w)(nm \<mapsto> str_or v [])\<rparr>)"

definition cookie_delete :: "string \<Rightarrow> world \<Rightarrow> world" where
  "cookie_delete nm w = emit (DeleteCookie nm) (w\<lparr>jar := (jar w)(nm := None)\<rparr>)"

definition setTokenCookies :: "KeycloakTokens \<Rightarrow> string \<Rightarrow> world \<Rightarrow> world" where
  "setTokenCookies tokens prefix w =
     (let names = getCookieNames prefix;
          w1 = cookie_set (nm_accessToken names) (access_token tokens) True (expires_in tokens) w;
          w2 = cookie_set (nm_refreshToken names) (refresh_token tokens) True (refresh_expires_in tokens) w1;
          w3 = cookie_set (nm_idToken names) (id_token tokens) True (expires_in tokens) w2;
          w4 = cookie_set (nm_expiresAt names) (Some (num_toString (access_token_expires_at tokens)))
                 False (refresh_expires_in tokens) w3
      in cookie_set (nm_refreshExpiresAt names) (Some (num_toString (refresh_token_expires_at tokens)))
           False (refresh_expires_in tokens) w4)"

record TokenCookies =
  tc_accessToken :: "string option"
  tc_refreshToken :: "string option"
  tc_idToken :: "string option"
  tc_expiresAt :: "jsnum option"
  tc_refreshExpiresAt :: "jsnum option"

definition getTokenCookies :: "string \<Rightarrow> world \<Rightarrow> TokenCookies" where
  "getTokenCookies prefix w =
     (let names = getCookieNames prefix;
          expiresAtStr = jar w (nm_expiresAt names);
          refreshExpiresAtStr = jar w (nm_refreshExpiresAt names)
      in \<lparr>tc_accessToken = jar w (nm_accessToken names),
          tc_refreshToken = jar w (nm_refreshToken names),
          tc_idToken = jar w (nm_idToken names),
          tc_expiresAt =
            (if truthy_str expiresAtStr then Some (parseInt (str_or expiresAtStr [])) else None),
          tc_refreshExpiresAt =
            (if truthy_str refreshExpiresAtStr then Some (parseInt (str_or refreshExpiresAtStr []))
             else None)\<rparr>)"

record PKCECookies =
  pk_codeVerifier :: "string option"
  pk_state :: "string option"
  pk_returnTo :: "string option"

definition getPKCECookies :: "string \<Rightarrow> world \<Rightarrow> PKCECookies" where
  "getPKCECookies prefix w =
     (let names = getCookieNames prefix
      in \<lparr>pk_codeVerifier = jar w (nm_codeVerifier names),
          pk_state = jar w (nm_state names),
          pk_returnTo = jar w (nm_returnTo names)\<rparr>)"

definition clearPKCECookies :: "string \<Rightarrow> world \<Rightarrow> world" where
  "clearPKCECookies prefix w =
     (let names = getCookieNames prefix
      in cookie_delete (nm_returnTo names)
           (cookie_delete (nm_state names) (cookie_delete (nm_codeVerifier names) w)))"

section \<open>oidc/jwt.ts: claims and the user\<close>

text \<open>\<open>decodeJwt\<close> throws on anything that is not a string holding a well-formed JWT.\<close>

definition decodeToken :: "env \<Rightarrow> string option \<Rightarrow> error + claims" where
  "decodeToken e token =
     (case token of
        None \<Rightarrow> Inl JWTInvalid
      | Some t \<Rightarrow> (case decodeJwt e t of None \<Rightarrow> Inl JWTInvalid | Some c \<Rightarrow> Inr c))"

text \<open>
  \<open>x?.key\<close> and \<open>x?.[key]\<close>: \<open>undefined\<close> when \<open>x\<close> is \<open>null\<close> or \<open>undefined\<close>; the
  property of an object; the element of an array when the key is the decimal numeral of
  an index. In the cases left (a character or the length of a string, the length of an
  array, an inherited member) the code gets a value that has no property \<open>roles\<close>, which
  is all it reads of it; the model gives \<open>undefined\<close>, which has none either.
\<close>

definition array_index :: "string \<Rightarrow> nat \<Rightarrow> nat option" where
  "array_index k len = find (\<lambda>n. show_nat n = k) [0..<len]"

definition opt_prop :: "json option \<Rightarrow> string \<Rightarrow> json option" where
  "opt_prop x k =
     (case x of
        Some (JObj kvs) \<Rightarrow> map_of kvs k
      | Some (JArr xs) \<Rightarrow>
          (case array_index k (length xs) of None \<Rightarrow> None | Some n \<Rightarrow> Some (xs ! n))
      | _ \<Rightarrow> None)"

text \<open>\<open>x ?? []\<close>.\<close>

definition or_empty_array :: "json option \<Rightarrow> json" where
  "or_empty_array x = (case x of None \<Rightarrow> JArr [] | Some JNull \<Rightarrow> JArr [] | Some v \<Rightarrow> v)"

text \<open>
  \<open>[...x]\<close>: the elements of an array, the characters of a string; any other value is
  not iterable.
\<close>

definition spread_elements :: "json \<Rightarrow> error + json list" where
  "spread_elements x =
     (case x of
        JArr xs \<Rightarrow> Inr xs
      | JStr cs \<Rightarrow> Inr (map (\<lambda>c. JStr [c]) cs)
      | _ \<Rightarrow> Inl TypeError)"

text \<open>
  \<open>[...new Set(xs)]\<close> keeps the first occurrence of each value, in order. Primitive
  values are the same when equal; two arrays or objects of a decoded payload never are.
\<close>

definition same_value :: "json \<Rightarrow> json \<Rightarrow> bool" where
  "same_value a b = (case a of JArr _ \<Rightarrow> False | JObj _ \<Rightarrow> False | _ \<Rightarrow> a = b)"

fun set_values :: "json list \<Rightarrow> json list \<Rightarrow> json list" where
  "set_values seen [] = seen"
| "set_values seen (x # xs) =
     (if list_ex (same_value x) seen then set_values seen xs else set_values (seen @ [x]) xs)"

definition extractUser :: "claims \<Rightarrow> string \<Rightarrow> error + KeycloakUser" where
  "extractUser c client =
     (let realmAccess = c ''realm_access'';
          realmRoles = or_empty_array (opt_prop realmAccess ''roles'');
          resourceAccess = c ''resource_access'';
          clientRoles = or_empty_array (opt_prop (opt_prop resourceAccess client) ''roles'')
      in case spread_elements realmRoles of
           Inl err \<Rightarrow> Inl err
         | Inr rs \<Rightarrow>
             (case spread_elements clientRoles of
                Inl err \<Rightarrow> Inl err
              | Inr cs \<Rightarrow>
                  Inr \<lparr>sub = c ''sub'',
                       name = c ''name'',
                       given_name = c ''given_name'',
                       family_name = c ''family_name'',
                       preferred_username = c ''preferred_username'',
                       email = c ''email'',
                       email_verified = c ''email_verified'',
                       roles = set_values [] (rs @ cs),
                       realm_roles = realmRoles,
                       client_roles = clientRoles,
                       raw_claims = c\<rparr>))"

section \<open>session/session.ts\<close>

text \<open>\<open>{...target, ...source}\<close>: the properties of \<open>source\<close> are written over the target's.\<close>

definition spread_into :: "claims \<Rightarrow> claims \<Rightarrow> claims" where
  "spread_into target source = target ++ source"

text \<open>\<open>a ?? b\<close> on two strings that may be absent.\<close>

definition str_coalesce :: "string option \<Rightarrow> string option \<Rightarrow> string option" where
  "str_coalesce a b = (case a of None \<Rightarrow> b | Some v \<Rightarrow> Some v)"

definition buildSession ::
  "env \<Rightarrow> string option \<Rightarrow> string option \<Rightarrow> jsnum option \<Rightarrow> jsnum option \<Rightarrow> string
     \<Rightarrow> error + KeycloakSession" where
  "buildSession e accessTok idTok accessTokenExp refreshTokenExp client =
     (let tokenToDecode = str_coalesce idTok accessTok
      in case decodeToken e tokenToDecode of
           Inl err \<Rightarrow> Inl err
         | Inr cl \<Rightarrow>
             (case (if truthy_str idTok then decodeToken e accessTok else Inr cl) of
                Inl err \<Rightarrow> Inl err
              | Inr accessClaims \<Rightarrow>
                  (let mergedClaims = spread_into (spread_into (spread_into Map.empty cl) accessClaims) cl
                   in case extractUser mergedClaims client of
                        Inl err \<Rightarrow> Inl err
                      | Inr u \<Rightarrow>
                          Inr \<lparr>user = u,
                               accessToken = accessTok,
                               idToken = str_coalesce idTok accessTok,
                               accessTokenExpiresAt = num_or accessTokenExp (Num 0),
                               refreshTokenExpiresAt = num_or refreshTokenExp (Num 0)\<rparr>)))"

text \<open>
  The \<open>try\<close> block of \<open>getSession\<close> and its \<open>catch\<close>: whatever is thrown inside, by the
  refresh exchange or by building the session, the result is \<open>null\<close>.
\<close>

definition refreshBranch ::
  "env \<Rightarrow> KeycloakConfig \<Rightarrow> string \<Rightarrow> string \<Rightarrow> world \<Rightarrow> KeycloakSession option \<times> world" where
  "refreshBranch e config cookiePrefix refreshToken w =
     (case refreshAccessToken e config refreshToken w of
        (Inl err, w1) \<Rightarrow> (None, w1)
      | (Inr newTokens, w1) \<Rightarrow>
          (let w2 = setTokenCookies newTokens cookiePrefix w1
           in case buildSession e (access_token newTokens) (id_token newTokens)
                     (Some (access_token_expires_at newTokens))
                     (Some (refresh_token_expires_at newTokens)) (clientId config) of
                Inl err \<Rightarrow> (None, w2)
              | Inr s \<Rightarrow> (Some s, w2)))"

text \<open>
  \<open>getSession\<close> resolves to a session or to \<open>null\<close> (\<open>Inr None\<close>), or rejects (\<open>Inl\<close>)
  when the session of a still valid access token cannot be built. A timestamp that is
  \<open>null\<close> never reaches \<open>isTokenExpired\<close>, which would read it as \<open>0\<close>.
\<close>

definition getSession ::
  "env \<Rightarrow> KeycloakConfig \<Rightarrow> world \<Rightarrow> (error + KeycloakSession option) \<times> world" where
  "getSession e config w =
     (let cookiePrefix = str_or (cookieName config) ''kc'';
          refreshMargin = num_or (refreshMarginSeconds config) (Num 60);
          tokenCookies = getTokenCookies cookiePrefix w
      in if \<not> truthy_str (tc_accessToken tokenCookies) \<and> \<not> truthy_str (tc_refreshToken tokenCookies)
         then (Inr None, w)
         else if truthy_str (tc_accessToken tokenCookies) \<and> truthy_num (tc_expiresAt tokenCookies)
                 \<and> \<not> isTokenExpired (now_ms e) (num_or (tc_expiresAt tokenCookies) (Num 0))
                       (Some refreshMargin)
         then (case buildSession e (tc_accessToken tokenCookies) (tc_idToken tokenCookies)
                      (tc_expiresAt tokenCookies) (tc_refreshExpiresAt tokenCookies) (clientId config) of
                 Inl err \<Rightarrow> (Inl err, w)
               | Inr s \<Rightarrow> (Inr (Some s), w))
         else if truthy_str (tc_refreshToken tokenCookies)
         then (if truthy_num (tc_refreshExpiresAt tokenCookies)
                  \<and> isTokenExpired (now_ms e) (num_or (tc_refreshExpiresAt tokenCookies) (Num 0))
                        (Some (Num 0))
               then (Inr None, w)
               else (case refreshBranch e config cookiePrefix (str_or (tc_refreshToken tokenCookies) []) w of
                       (r, w1) \<Rightarrow> (Inr r, w1)))
         else (Inr None, w))"

section \<open>handlers/callback.ts\<close>

text \<open>
  Of the request, the handler reads the origin of its URL and the query parameters;
  \<open>searchParams.get\<close> gives the first value of a name.
\<close>

record request =
  origin :: string
  query :: "(string \<times> string) list"

definition searchParams_get :: "request \<Rightarrow> string \<Rightarrow> string option" where
  "searchParams_get req k = map_of (query req) k"

datatype failure =
    MissingAuthorizationCode
  | InvalidStateParameter
  | MissingCodeVerifier
  | TokenExchangeFailure error

text \<open>A redirect to a URL with query parameters set on it, or a JSON error with its status.\<close>

datatype response =
    Redirect string "(string \<times> string) list"
  | JsonError nat failure

definition callbackHandler ::
  "env \<Rightarrow> KeycloakConfig \<Rightarrow> request \<Rightarrow> world \<Rightarrow> response \<times> world" where
  "callbackHandler e config req w =
     (let code = searchParams_get req ''code'';
          state = searchParams_get req ''state'';
          err = searchParams_get req ''error'';
          errorDescription = searchParams_get req ''error_description''
      in if truthy_str err
         then (Redirect (origin req @ ''/auth/error'')
                 ((''error'', str_or err []) #
                  (if truthy_str errorDescription
                   then [(''description'', str_or errorDescription [])] else [])), w)
         else if \<not> truthy_str code
         then (JsonError 400 MissingAuthorizationCode, w)
         else
           (let cookiePrefix = str_or (cookieName config) ''kc'';
                pkceCookies = getPKCECookies cookiePrefix w
            in if \<not> truthy_str state \<or> \<not> truthy_str (pk_state pkceCookies)
                    \<or> state \<noteq> pk_state pkceCookies
               then (JsonError 403 InvalidStateParameter, w)
               else if \<not> truthy_str (pk_codeVerifier pkceCookies)
               then (JsonError 400 MissingCodeVerifier, w)
               else
                 (let baseUrl = origin req;
                      basePath = str_or (authBasePath config) ''/api/auth'';
                      redirect = str_or (redirectUri config) (baseUrl @ basePath @ ''/callback'')
                  in case exchangeCodeForTokens e config (str_or code [])
                            (str_or (pk_codeVerifier pkceCookies) []) redirect w of
                       (Inl ex, w1) \<Rightarrow> (JsonError 500 (TokenExchangeFailure ex), w1)
                     | (Inr tokens, w1) \<Rightarrow>
                         (let w2 = setTokenCookies tokens cookiePrefix w1;
                              w3 = clearPKCECookies cookiePrefix w2;
                              returnTo = str_or (pk_returnTo pkceCookies) ''/''
                          in case resolve_url e returnTo baseUrl of
                               None \<Rightarrow> (JsonError 500 (TokenExchangeFailure TypeError), w3)
                             | Some target \<Rightarrow> (Redirect target [], w3)))))"

section \<open>The claim merge, as specified\<close>

text \<open>
  The specification's merge of the two claim sets, written from its words: a single
  merge in which the id token's claims win on a key collision and the access token's
  claims fill the gaps. \<open>buildSession\<close> is compared with it below.
\<close>

definition single_merge :: "claims \<Rightarrow> claims \<Rightarrow> claims" where
  "single_merge idClaims accessClaims =
     (\<lambda>k. case idClaims k of Some v \<Rightarrow> Some v | None \<Rightarrow> accessClaims k)"

section \<open>Concrete inputs\<close>

text \<open>
  The inputs at which the theorems below are instantiated: the configuration of the
  specification's scenario, a cookie store holding the given cookies, a provider that
  cannot be reached, and a provider that answers the discovery request with a document
  and every token request with one reply.
\<close>

definition demo_config :: KeycloakConfig where
  "demo_config =
     \<lparr>url = ''https://idp.test'', realm = ''demo'', clientId = ''app'', clientSecret = None,
      scopes = None, redirectUri = None, postLogoutRedirectUri = None, authBasePath = None,
      cookieName = None, refreshMarginSeconds = None\<rparr>"

definition offline_env :: env where
  "offline_env =
     \<lparr>now_ms = 1000000, fetch_discovery = (\<lambda>_. None), fetch_token = (\<lambda>_ _. None),
      decodeJwt = (\<lambda>_. None), resolve_url = (\<lambda>p b. Some (b @ p))\<rparr>"

definition stored :: "(string \<times> string) list \<Rightarrow> world" where
  "stored cookies = \<lparr>jar = map_of cookies, cache = Map.empty, trace = []\<rparr>"

definition demo_discovery :: "string \<rightharpoonup> string" where
  "demo_discovery =
     map_of [(''authorization_endpoint'', ''https://idp.test/auth''),
             (''token_endpoint'', ''https://idp.test/token''),
             (''end_session_endpoint'', ''https://idp.test/logout''),
             (''jwks_uri'', ''https://idp.test/certs''),
             (''issuer'', ''https://idp.test/realms/demo'')]"

definition demo_decode :: "string \<Rightarrow> claims option" where
  "demo_decode t =
     (if t = ''ID'' then Some (map_of [(''sub'', JStr ''alice''), (''name'', JStr ''Alice'')])
      else if t = ''AT''
      then Some (map_of [(''sub'', JStr ''service''),
                         (''realm_access'', JObj [(''roles'', JArr [JStr ''admin''])])])
      else None)"

definition provider_env :: "(string \<rightharpoonup> string) \<Rightarrow> TokenResponse http_response \<Rightarrow> env" where
  "provider_env document reply =
     \<lparr>now_ms = 1000000,
      fetch_discovery = (\<lambda>_. Some \<lparr>status = 200, statusText = ''OK'', body_text = [],
                                   body_json = Some document\<rparr>),
      fetch_token = (\<lambda>_ _. Some reply),
      decodeJwt = demo_decode,
      resolve_url = (\<lambda>p b. Some (b @ p))\<rparr>"

definition rejected_reply :: "TokenResponse http_response" where
  "rejected_reply = \<lparr>status = 400, statusText = ''Bad Request'', body_text = ''invalid_grant'',
                     body_json = None\<rparr>"

definition granted_reply :: "TokenResponse http_response" where
  "granted_reply =
     \<lparr>status = 200, statusText = ''OK'', body_text = [],
      body_json = Some \<lparr>access_token = Some ''AT'', refresh_token = Some ''RT'',
                        id_token = Some ''ID'', token_type = Some ''Bearer'',
                        expires_in = Seconds 300, refresh_expires_in = Seconds 1800\<rparr>\<rparr>"

section \<open>Token expiry\<close>

lemma epoch_seconds_ge: "(k \<le> epoch_seconds date_now) = (k * 1000 \<le> date_now)"
proof -
  have d: "date_now = 1000 * (date_now div 1000) + date_now mod 1000" by simp
  have "0 \<le> date_now mod 1000" "date_now mod 1000 < 1000" by simp_all
  with d show ?thesis unfolding epoch_seconds_def by linarith
qed

text \<open>
  C6. For an expiry timestamp \<open>ex\<close> and a margin \<open>m\<close> in epoch seconds,
  \<open>isTokenExpired(ex, m)\<close> is true exactly when \<open>now >= ex - m\<close>, where \<open>now\<close> is the
  clock reading in whole epoch seconds; at the boundary \<open>now = ex - m\<close> it is true. In
  milliseconds: exactly when the clock has reached \<open>(ex - m) * 1000\<close>. Without a margin
  argument the margin is 60 seconds.
\<close>

theorem isTokenExpired_iff_now_ge:
  "isTokenExpired clock (Num ex) (Some (Num m)) = (ex - m \<le> epoch_seconds clock)
   \<and> isTokenExpired clock (Num ex) (Some (Num m)) = ((ex - m) * 1000 \<le> clock)
   \<and> (epoch_seconds clock = ex - m \<longrightarrow> isTokenExpired clock (Num ex) (Some (Num m)))
   \<and> isTokenExpired clock (Num ex) None = (ex - 60 \<le> epoch_seconds clock)"
proof -
  have 1: "isTokenExpired clock (Num ex) (Some (Num m)) = (ex - m \<le> epoch_seconds clock)"
    by (simp add: isTokenExpired_def js_ge_def js_sub_def num_or_def)
  have 2: "isTokenExpired clock (Num ex) None = (ex - 60 \<le> epoch_seconds clock)"
    by (simp add: isTokenExpired_def js_ge_def js_sub_def num_or_def)
  have 3: "isTokenExpired clock (Num ex) (Some (Num m)) = ((ex - m) * 1000 \<le> clock)"
    unfolding 1 by (rule epoch_seconds_ge)
  have 4: "epoch_seconds clock = ex - m \<longrightarrow> isTokenExpired clock (Num ex) (Some (Num m))"
    unfolding 1 by simp
  from 1 2 3 4 show ?thesis by blast
qed

theorem isTokenExpired_iff_now_ge_witness:
  "isTokenExpired 1000999 (Num 1060) (Some (Num 60))
   \<and> \<not> isTokenExpired 999999 (Num 1060) (Some (Num 60))
   \<and> isTokenExpired 1000000 (Num 1060) None"
  using isTokenExpired_iff_now_ge [of 1000999 1060 60]
    isTokenExpired_iff_now_ge [of 999999 1060 60]
    isTokenExpired_iff_now_ge [of 1000000 1060 60]
  by (simp add: epoch_seconds_def)

section \<open>The code verifier's length\<close>

lemma b64_char_not_pad: "b64_char i \<noteq> CHR ''=''"
proof -
  have len: "length b64_alphabet = 64" by (simp add: b64_alphabet_def)
  have notin: "CHR ''='' \<notin> set b64_alphabet" by (simp add: b64_alphabet_def)
  have "i mod 64 < length b64_alphabet" using len by simp
  then have "b64_alphabet ! (i mod 64) \<in> set b64_alphabet" by (rule nth_mem)
  with notin show ?thesis unfolding b64_char_def by metis
qed

lemma btoa_shape:
  "\<exists>body. btoa s = body @ replicate ((3 - length s mod 3) mod 3) (CHR ''='')
     \<and> CHR ''='' \<notin> set body \<and> length body = (4 * length s + 2) div 3"
proof (induction s rule: btoa.induct)
  case 1
  then show ?case by simp
next
  case (2 a)
  have "btoa [a] = [b64_char (of_char a div 4), b64_char ((of_char a mod 4) * 16)] @ replicate 2 (CHR ''='')"
    by (simp add: Let_def numeral_2_eq_2)
  moreover have "CHR ''='' \<notin> set [b64_char (of_char a div 4), b64_char ((of_char a mod 4) * 16)]"
    by (simp add: b64_char_not_pad [symmetric])
  moreover have "(3 - length [a] mod 3) mod 3 = 2" "(4 * length [a] + 2) div 3 = length [b64_char (of_char a div 4), b64_char ((of_char a mod 4) * 16)]"
    by simp_all
  ultimately show ?case by metis
next
  case (3 a b)
  have "btoa [a, b] = [b64_char (of_char a div 4), b64_char ((of_char a mod 4) * 16 + of_char b div 16),
      b64_char ((of_char b mod 16) * 4)] @ replicate 1 (CHR ''='')"
    by (simp add: Let_def)
  moreover have "CHR ''='' \<notin> set [b64_char (of_char a div 4), b64_char ((of_char a mod 4) * 16 + of_char b div 16),
      b64_char ((of_char b mod 16) * 4)]"
    by (simp add: b64_char_not_pad [symmetric])
  moreover have "(3 - length [a, b] mod 3) mod 3 = 1" "(4 * length [a, b] + 2) div 3 = length [b64_char (of_char a div 4), b64_char ((of_char a mod 4) * 16 + of_char b div 16),
      b64_char ((of_char b mod 16) * 4)]"
    by simp_all
  ultimately show ?case by metis
next
  case (4 a b c rest)
  then obtain body where b: "btoa rest = body @ replicate ((3 - length rest mod 3) mod 3) (CHR ''='')"
    "CHR ''='' \<notin> set body" "length body = (4 * length rest + 2) div 3" by blast
  let ?q = "[b64_char (of_char a div 4), b64_char ((of_char a mod 4) * 16 + of_char b div 16),
          b64_char ((of_char b mod 16) * 4 + of_char c div 64), b64_char (of_char c mod 64)]"
  have "length (a # b # c # rest) = length rest + 3" by simp
  then have m: "length (a # b # c # rest) mod 3 = length rest mod 3"
    by (metis mod_add_self2)
  have A: "btoa (a # b # c # rest) = (?q @ body) @ replicate ((3 - length (a # b # c # rest) mod 3) mod 3) (CHR ''='')"
    unfolding m using b(1) by (simp add: Let_def)
  have B: "CHR ''='' \<notin> set (?q @ body)"
    using b(2) by (simp add: b64_char_not_pad [symmetric])
  have C: "length (?q @ body) = (4 * length (a # b # c # rest) + 2) div 3"
    using b(3) by simp
  show ?case
  proof (intro exI conjI)
    show "btoa (a # b # c # rest) = (?q @ body) @ replicate ((3 - length (a # b # c # rest) mod 3) mod 3) (CHR ''='')"
      by (fact A)
    show "CHR ''='' \<notin> set (?q @ body)" by (fact B)
    show "length (?q @ body) = (4 * length (a # b # c # rest) + 2) div 3" by (fact C)
  qed
qed

lemma strip_padding_append:
  "CHR ''='' \<notin> set body \<Longrightarrow> strip_padding (body @ replicate k (CHR ''='')) = body"
proof -
  assume a: "CHR ''='' \<notin> set body"
  have "dropWhile (\<lambda>x. x = CHR ''='') (replicate k (CHR ''='') @ rev body) = dropWhile (\<lambda>x. x = CHR ''='') (rev body)"
    by (rule dropWhile_append2) simp
  moreover have "dropWhile (\<lambda>x. x = CHR ''='') (rev body) = rev body"
  proof (cases "rev body")
    case Nil
    then show ?thesis by simp
  next
    case (Cons x xs)
    then have "x \<in> set body" by (metis list.set_intros(1) set_rev)
    with a have "x \<noteq> CHR ''=''" by auto
    with Cons show ?thesis by simp
  qed
  ultimately show ?thesis by (simp add: strip_padding_def)
qed

lemma length_base64UrlEncode: "length (base64UrlEncode buffer) = (4 * length buffer + 2) div 3"
proof -
  obtain body where b: "btoa (map (\<lambda>b. char_of (unat b)) buffer) = body @ replicate ((3 - length (map (\<lambda>b. char_of (unat b)) buffer) mod 3) mod 3) (CHR ''='')"
    "CHR ''='' \<notin> set body" "length body = (4 * length (map (\<lambda>b. char_of (unat b)) buffer) + 2) div 3"
    using btoa_shape by blast
  let ?f = "\<lambda>s. replace_all CHR ''/'' CHR ''_'' (replace_all CHR ''+'' CHR ''-'' s)"
  have 1: "?f (body @ replicate k (CHR ''='')) = ?f body @ replicate k (CHR ''='')" for k
    by (simp add: replace_all_def)
  have 2: "CHR ''='' \<notin> set (?f body)" using b(2) by (auto simp: replace_all_def)
  have "base64UrlEncode buffer = ?f body"
    unfolding base64UrlEncode_def Let_def b(1) 1 using 2 by (rule strip_padding_append)
  then show ?thesis using b(3) by (simp add: replace_all_def)
qed

lemma generateCodeVerifier_length:
  assumes "n \<le> 65536"
  shows "\<exists>v. generateCodeVerifier random_byte (Some n) = Inr v \<and> length v = (4 * n + 2) div 3"
  using assms by (simp add: generateCodeVerifier_def Let_def length_base64UrlEncode)

lemma verifier_length_in_range:
  "(43 \<le> (4 * n + 2) div 3 \<and> (4 * n + 2) div 3 \<le> 128) = (32 \<le> n \<and> n \<le> (96::nat))"
  by linarith

text \<open>
  C5. The argument of \<open>generateCodeVerifier\<close> is the number of random bytes, and the
  verifier has \<open>(4 * length + 2) div 3\<close> characters: within 43 to 128 only for 32 to 96
  bytes. The default call gives 86 characters, inside the range of RFC 7636; the call
  \<open>generateCodeVerifier(128)\<close>, at the upper end of the documented range, gives 171
  characters, outside it.
\<close>

theorem generateCodeVerifier_128_exceeds_range:
  "(\<exists>v. generateCodeVerifier random_byte (Some 128) = Inr v \<and> length v = 171)
   \<and> (\<exists>v. generateCodeVerifier random_byte None = Inr v \<and> length v = 86)"
proof -
  have "\<exists>v. generateCodeVerifier random_byte (Some 128) = Inr v \<and> length v = (4 * 128 + 2) div 3"
    by (rule generateCodeVerifier_length) simp
  moreover have "\<exists>v. generateCodeVerifier random_byte (Some 64) = Inr v \<and> length v = (4 * 64 + 2) div 3"
    by (rule generateCodeVerifier_length) simp
  moreover have "generateCodeVerifier random_byte None = generateCodeVerifier random_byte (Some 64)"
    by (simp add: generateCodeVerifier_def)
  ultimately show ?thesis by simp
qed

theorem generateCodeVerifier_128_exceeds_range_witness:
  "(\<exists>v. generateCodeVerifier (\<lambda>i. 0) (Some 128) = Inr v \<and> length v = 171)
   \<and> (\<exists>v. generateCodeVerifier (\<lambda>i. 0) None = Inr v \<and> length v = 86)"
  by (rule generateCodeVerifier_128_exceeds_range)

section \<open>Effects of discovery and of the refresh exchange\<close>

lemma emit_simps [simp]: "jar (emit ev w) = jar w" "cache (emit ev w) = cache w"
  "trace (emit ev w) = trace w @ [ev]"
  by (simp_all add: emit_def)

lemma discoverEndpoints_jar: "jar (snd (discoverEndpoints e u r w)) = jar w"
  by (simp add: discoverEndpoints_def Let_def split: option.splits)

lemma discoverEndpoints_trace:
  "trace (snd (discoverEndpoints e u r w)) = trace w
   \<or> trace (snd (discoverEndpoints e u r w)) =
        trace w @ [HttpGet (getRealmUrl u r @ ''/.well-known/openid-configuration'')]"
  by (simp add: discoverEndpoints_def Let_def split: option.splits)

lemma refreshAccessToken_jar: "jar (snd (refreshAccessToken e config rt w)) = jar w"
proof -
  obtain res w1 where d: "discoverEndpoints e (url config) (realm config) (emit (CallRefresh rt) w) = (res, w1)"
    by (cases "discoverEndpoints e (url config) (realm config) (emit (CallRefresh rt) w)")
  have "jar w1 = jar w" using discoverEndpoints_jar [of e "url config" "realm config" "emit (CallRefresh rt) w"] d
    by simp
  then show ?thesis
    by (simp add: refreshAccessToken_def d Let_def split: sum.splits option.splits)
qed

lemma refreshAccessToken_store_writes:
  "filter is_store_write (trace (snd (refreshAccessToken e config rt w))) = filter is_store_write (trace w)"
proof -
  obtain res w1 where d: "discoverEndpoints e (url config) (realm config) (emit (CallRefresh rt) w) = (res, w1)"
    by (cases "discoverEndpoints e (url config) (realm config) (emit (CallRefresh rt) w)")
  have "filter is_store_write (trace w1) = filter is_store_write (trace w)"
    using discoverEndpoints_trace [of e "url config" "realm config" "emit (CallRefresh rt) w"] d
    by (auto simp: is_store_write_def)
  then show ?thesis
    by (simp add: refreshAccessToken_def d Let_def is_store_write_def split: sum.splits option.splits)
qed

lemma refreshAccessToken_traced:
  "\<exists>evs. trace (snd (refreshAccessToken e config rt w)) = trace w @ CallRefresh rt # evs"
proof -
  obtain res w1 where d: "discoverEndpoints e (url config) (realm config) (emit (CallRefresh rt) w) = (res, w1)"
    by (cases "discoverEndpoints e (url config) (realm config) (emit (CallRefresh rt) w)")
  have "\<exists>evs. trace w1 = trace w @ CallRefresh rt # evs"
    using discoverEndpoints_trace [of e "url config" "realm config" "emit (CallRefresh rt) w"] d
    by auto
  then show ?thesis
    by (auto simp add: refreshAccessToken_def d Let_def split: sum.splits option.splits)
qed

lemma refreshBranch_traced:
  "\<exists>evs. trace (snd (refreshBranch e config prefix rt w)) = trace w @ CallRefresh rt # evs"
proof -
  obtain res w1 where r: "refreshAccessToken e config rt w = (res, w1)"
    by (cases "refreshAccessToken e config rt w")
  then obtain evs where t: "trace w1 = trace w @ CallRefresh rt # evs"
    using refreshAccessToken_traced [of e config rt w] by auto
  show ?thesis
    by (cases res)
       (simp_all add: refreshBranch_def r t Let_def setTokenCookies_def cookie_set_def split: sum.splits)
qed

lemmas eval_defs =
  getSession_def getTokenCookies_def getCookieNames_def stored_def truthy_str_def
  truthy_num_def parseInt_def is_space_def is_digit_def digits_value_def isTokenExpired_def
  js_ge_def js_sub_def js_add_def num_or_def str_or_def epoch_seconds_def offline_env_def demo_config_def
  lifetime_number_def
  refreshBranch_def refreshAccessToken_def discoverEndpoints_def cache_lookup_def getRealmUrl_def
  provider_env_def demo_discovery_def rejected_reply_def granted_reply_def response_ok_def
  requiredFields_def endpoint_field_def emit_def Let_def

section \<open>The callback handler: CSRF state\<close>

text \<open>
  C1. A callback that passes the handler's tests for the provider's \<open>error\<close> parameter
  (none, or empty) and for the \<open>code\<close> (present and not empty), and whose \<open>state\<close>
  query parameter is absent, or whose persisted state is absent, or whose two states are
  not the same string, is answered with HTTP 403 and changes nothing: no cookie is
  written, no request is sent and the code-for-tokens exchange is not entered.
\<close>

theorem callback_rejects_state_mismatch:
  assumes "\<not> truthy_str (searchParams_get req ''error'')"
    and "truthy_str (searchParams_get req ''code'')"
    and "searchParams_get req ''state'' = None
         \<or> jar w (str_or (cookieName config) ''kc'' @ ''_state'') = None
         \<or> searchParams_get req ''state'' \<noteq> jar w (str_or (cookieName config) ''kc'' @ ''_state'')"
  shows "callbackHandler e config req w = (JsonError 403 InvalidStateParameter, w)
         \<and> filter is_exchange_call (trace (snd (callbackHandler e config req w)))
             = filter is_exchange_call (trace w)"
proof -
  have "callbackHandler e config req w = (JsonError 403 InvalidStateParameter, w)"
    using assms
    by (auto simp add: callbackHandler_def Let_def getPKCECookies_def getCookieNames_def truthy_str_def)
  then show ?thesis by simp
qed

theorem callback_rejects_state_mismatch_witness:
  "callbackHandler offline_env demo_config
     \<lparr>origin = ''https://app.test'', query = [(''code'', ''c1''), (''state'', ''forged'')]\<rparr>
     (stored [(''kc_state'', ''nonce''), (''kc_cv'', ''verifier'')])
   = (JsonError 403 InvalidStateParameter, stored [(''kc_state'', ''nonce''), (''kc_cv'', ''verifier'')])"
  using callback_rejects_state_mismatch [of
     "\<lparr>origin = ''https://app.test'', query = [(''code'', ''c1''), (''state'', ''forged'')]\<rparr>"
     "stored [(''kc_state'', ''nonce''), (''kc_cv'', ''verifier'')]" demo_config offline_env]
  by (simp add: searchParams_get_def truthy_str_def stored_def demo_config_def str_or_def)

section \<open>Session resolution\<close>

text \<open>
  C2. With no valid access token, a refresh token and a stored refresh expiry in the
  past, \<open>getSession\<close> is to return \<open>null\<close> without a network call and without deleting
  the stored credentials. At the stored expiry \<open>0\<close> the code does not: \<open>0\<close> is in the
  past (\<open>isTokenExpired(0, 0)\<close> holds), but the test for a missing timestamp in front of
  the expiry test takes the number \<open>0\<close> for a missing one, and the call goes on to the
  refresh exchange, which sends the discovery request.
\<close>

theorem getSession_zero_refresh_expiry:
  "\<not> truthy_str (tc_accessToken (getTokenCookies ''kc'' (stored [(''kc_rt'', ''r1''), (''kc_rexp'', ''0'')])))
   \<and> truthy_str (tc_refreshToken (getTokenCookies ''kc'' (stored [(''kc_rt'', ''r1''), (''kc_rexp'', ''0'')])))
   \<and> tc_refreshExpiresAt (getTokenCookies ''kc'' (stored [(''kc_rt'', ''r1''), (''kc_rexp'', ''0'')])) = Some (Num 0)
   \<and> isTokenExpired (now_ms offline_env) (Num 0) (Some (Num 0))
   \<and> trace (snd (getSession offline_env demo_config (stored [(''kc_rt'', ''r1''), (''kc_rexp'', ''0'')])))
       = [CallRefresh ''r1'', HttpGet ''https://idp.test/realms/demo/.well-known/openid-configuration'']"
  by (simp add: getSession_def getTokenCookies_def getCookieNames_def stored_def truthy_str_def
      truthy_num_def parseInt_def is_space_def is_digit_def digits_value_def isTokenExpired_def
      js_ge_def js_sub_def num_or_def str_or_def epoch_seconds_def offline_env_def demo_config_def
      refreshBranch_def refreshAccessToken_def discoverEndpoints_def cache_lookup_def getRealmUrl_def
      Let_def)

theorem getSession_zero_refresh_expiry_witness:
  "filter is_network
     (trace (snd (getSession offline_env demo_config (stored [(''kc_rt'', ''r1''), (''kc_rexp'', ''0'')]))))
   = [HttpGet ''https://idp.test/realms/demo/.well-known/openid-configuration'']
   \<and> filter is_refresh_call
     (trace (snd (getSession offline_env demo_config (stored [(''kc_rt'', ''r1''), (''kc_rexp'', ''0'')]))))
   = [CallRefresh ''r1'']"
  using getSession_zero_refresh_expiry by (simp add: is_network_def is_refresh_call_def)

text \<open>
  At every other stored refresh expiry that has passed, the expiry test is reached and
  the resolver does return \<open>null\<close>, leaving the world as it was: no request is sent and
  no cookie is written or deleted.
\<close>

lemma getSession_refresh_expired_nonzero:
  assumes "tc = getTokenCookies (str_or (cookieName config) ''kc'') w"
    and "\<not> (truthy_str (tc_accessToken tc) \<and> truthy_num (tc_expiresAt tc)
            \<and> \<not> isTokenExpired (now_ms e) (num_or (tc_expiresAt tc) (Num 0))
                  (Some (num_or (refreshMarginSeconds config) (Num 60))))"
    and "truthy_str (tc_refreshToken tc)"
    and "tc_refreshExpiresAt tc = Some (Num x)" and "x \<noteq> 0"
    and "isTokenExpired (now_ms e) (Num x) (Some (Num 0))"
  shows "getSession e config w = (Inr None, w)"
proof -
  have "truthy_num (tc_refreshExpiresAt tc)"
    and "num_or (tc_refreshExpiresAt tc) (Num 0) = Num x"
    using assms(4,5) by (simp_all add: truthy_num_def num_or_def)
  with assms(2,3,6) show ?thesis
    unfolding getSession_def Let_def assms(1) [symmetric] by auto
qed

lemma getSession_refresh_expired_nonzero_example:
  "getSession offline_env demo_config (stored [(''kc_rt'', ''r1''), (''kc_rexp'', ''900'')])
     = (Inr None, stored [(''kc_rt'', ''r1''), (''kc_rexp'', ''900'')])"
  by (rule getSession_refresh_expired_nonzero [where x = 900, OF refl])
     (simp_all add: getTokenCookies_def getCookieNames_def stored_def truthy_str_def
      truthy_num_def parseInt_def is_space_def is_digit_def digits_value_def isTokenExpired_def
      js_ge_def js_sub_def num_or_def str_or_def epoch_seconds_def offline_env_def demo_config_def
      Let_def)

text \<open>
  C3. When the refresh branch is reached (no valid access token, a refresh token that is
  not known to be expired) and the refresh exchange throws, \<open>getSession\<close> returns \<open>null\<close>,
  the cookie store is as it was, and no cookie has been written or deleted.
\<close>

theorem getSession_refresh_failure:
  assumes "tc = getTokenCookies (str_or (cookieName config) ''kc'') w"
    and "\<not> (truthy_str (tc_accessToken tc) \<and> truthy_num (tc_expiresAt tc)
            \<and> \<not> isTokenExpired (now_ms e) (num_or (tc_expiresAt tc) (Num 0))
                  (Some (num_or (refreshMarginSeconds config) (Num 60))))"
    and "tc_refreshToken tc = Some rt" and "rt \<noteq> []"
    and "\<not> (truthy_num (tc_refreshExpiresAt tc)
            \<and> isTokenExpired (now_ms e) (num_or (tc_refreshExpiresAt tc) (Num 0)) (Some (Num 0)))"
    and "fst (refreshAccessToken e config rt w) = Inl err"
  shows "fst (getSession e config w) = Inr None
         \<and> jar (snd (getSession e config w)) = jar w
         \<and> filter is_store_write (trace (snd (getSession e config w)))
             = filter is_store_write (trace w)"
proof -
  obtain w1 where r: "refreshAccessToken e config rt w = (Inl err, w1)"
    using assms(6) by (cases "refreshAccessToken e config rt w") simp
  have j: "jar w1 = jar w" using refreshAccessToken_jar [of e config rt w] r by simp
  have t: "filter is_store_write (trace w1) = filter is_store_write (trace w)"
    using refreshAccessToken_store_writes [of e config rt w] r by simp
  have "truthy_str (tc_refreshToken tc)" and "str_or (tc_refreshToken tc) [] = rt"
    using assms(3,4) by (simp_all add: truthy_str_def str_or_def)
  with assms(2,5) have "getSession e config w = (Inr None, w1)"
    unfolding getSession_def Let_def assms(1) [symmetric] by (auto simp add: refreshBranch_def r)
  with j t show ?thesis by simp
qed

theorem getSession_refresh_failure_witness:
  "fst (getSession (provider_env demo_discovery rejected_reply) demo_config (stored [(''kc_rt'', ''r1'')])) = Inr None
   \<and> jar (snd (getSession (provider_env demo_discovery rejected_reply) demo_config (stored [(''kc_rt'', ''r1'')])))
       = jar (stored [(''kc_rt'', ''r1'')])
   \<and> filter is_store_write
        (trace (snd (getSession (provider_env demo_discovery rejected_reply) demo_config (stored [(''kc_rt'', ''r1'')]))))
       = filter is_store_write (trace (stored [(''kc_rt'', ''r1'')]))"
  by (rule getSession_refresh_failure [where rt = "''r1''"
        and err = "TokenRefreshFailed 400 ''Bad Request'' ''invalid_grant''", OF refl])
     (simp_all add: eval_defs)

text \<open>
  C10. With an access token whose expiry cookie is absent, the resolver is claimed to
  attempt a refresh whenever a refresh token is present. With a refresh token whose
  stored expiry has passed it returns \<open>null\<close> and attempts no refresh.
\<close>

theorem getSession_unknown_expiry_counterexample:
  "truthy_str (tc_accessToken (getTokenCookies ''kc''
      (stored [(''kc_at'', ''AT''), (''kc_rt'', ''r1''), (''kc_rexp'', ''900'')])))
   \<and> tc_expiresAt (getTokenCookies ''kc''
      (stored [(''kc_at'', ''AT''), (''kc_rt'', ''r1''), (''kc_rexp'', ''900'')])) = None
   \<and> truthy_str (tc_refreshToken (getTokenCookies ''kc''
      (stored [(''kc_at'', ''AT''), (''kc_rt'', ''r1''), (''kc_rexp'', ''900'')])))
   \<and> getSession (provider_env demo_discovery granted_reply) demo_config
        (stored [(''kc_at'', ''AT''), (''kc_rt'', ''r1''), (''kc_rexp'', ''900'')])
       = (Inr None, stored [(''kc_at'', ''AT''), (''kc_rt'', ''r1''), (''kc_rexp'', ''900'')])
   \<and> filter is_refresh_call (trace (snd (getSession (provider_env demo_discovery granted_reply) demo_config
        (stored [(''kc_at'', ''AT''), (''kc_rt'', ''r1''), (''kc_rexp'', ''900'')])))) = []"
  by (simp add: eval_defs)

text \<open>
  C10, as the code has it: with an access token whose expiry cookie is absent, the
  branch of the valid access token is not taken, whatever the token. The resolver goes
  on as for an expired access token: it enters the refresh exchange when a refresh token
  is present and not known to be expired (its result is the refresh branch's), and
  returns \<open>null\<close>, the world unchanged, otherwise.
\<close>

theorem getSession_unknown_expiry:
  assumes "tc = getTokenCookies (str_or (cookieName config) ''kc'') w"
    and "truthy_str (tc_accessToken tc)"
    and "tc_expiresAt tc = None"
  shows "(if truthy_str (tc_refreshToken tc)
             \<and> \<not> (truthy_num (tc_refreshExpiresAt tc)
                   \<and> isTokenExpired (now_ms e) (num_or (tc_refreshExpiresAt tc) (Num 0)) (Some (Num 0)))
          then getSession e config w
                 = (case refreshBranch e config (str_or (cookieName config) ''kc'')
                           (str_or (tc_refreshToken tc) []) w of (s, w1) \<Rightarrow> (Inr s, w1))
               \<and> (\<exists>evs. trace (snd (getSession e config w))
                      = trace w @ CallRefresh (str_or (tc_refreshToken tc) []) # evs)
          else getSession e config w = (Inr None, w))"
proof -
  have nv: "\<not> truthy_num (tc_expiresAt tc)" using assms(3) by (simp add: truthy_num_def)
  show ?thesis
  proof (cases "truthy_str (tc_refreshToken tc)
             \<and> \<not> (truthy_num (tc_refreshExpiresAt tc)
                   \<and> isTokenExpired (now_ms e) (num_or (tc_refreshExpiresAt tc) (Num 0)) (Some (Num 0)))")
    case True
    have g: "getSession e config w
                 = (case refreshBranch e config (str_or (cookieName config) ''kc'')
                           (str_or (tc_refreshToken tc) []) w of (s, w1) \<Rightarrow> (Inr s, w1))"
      using True nv assms(2) unfolding getSession_def Let_def assms(1) [symmetric] by auto
    obtain evs where "trace (snd (refreshBranch e config (str_or (cookieName config) ''kc'')
                           (str_or (tc_refreshToken tc) []) w))
         = trace w @ CallRefresh (str_or (tc_refreshToken tc) []) # evs"
      using refreshBranch_traced by blast
    then have "trace (snd (getSession e config w)) = trace w @ CallRefresh (str_or (tc_refreshToken tc) []) # evs"
      unfolding g by (simp add: case_prod_unfold)
    with g True show ?thesis by auto
  next
    case False
    have "getSession e config w = (Inr None, w)"
      using False nv assms(2) unfolding getSession_def Let_def assms(1) [symmetric] by auto
    with False show ?thesis by auto
  qed
qed

theorem getSession_unknown_expiry_witness:
  "getSession offline_env demo_config (stored [(''kc_at'', ''AT'')])
     = (Inr None, stored [(''kc_at'', ''AT'')])
   \<and> (\<exists>evs. trace (snd (getSession offline_env demo_config (stored [(''kc_at'', ''AT''), (''kc_rt'', ''r1'')])))
         = CallRefresh ''r1'' # evs)"
proof -
  let ?w = "stored [(''kc_at'', ''AT''), (''kc_rt'', ''r1'')]"
  let ?tc = "getTokenCookies (str_or (cookieName demo_config) ''kc'') ?w"
  have 1: "getSession offline_env demo_config (stored [(''kc_at'', ''AT'')])
     = (Inr None, stored [(''kc_at'', ''AT'')])"
    using getSession_unknown_expiry [of "getTokenCookies ''kc'' (stored [(''kc_at'', ''AT'')])"
      demo_config "stored [(''kc_at'', ''AT'')]" offline_env]
    by (simp add: getTokenCookies_def getCookieNames_def stored_def truthy_str_def str_or_def
      demo_config_def Let_def)
  have a: "truthy_str (tc_accessToken ?tc)" and b: "tc_expiresAt ?tc = None"
    and r: "str_or (tc_refreshToken ?tc) [] = ''r1''"
    and c: "truthy_str (tc_refreshToken ?tc)
             \<and> \<not> (truthy_num (tc_refreshExpiresAt ?tc)
                   \<and> isTokenExpired (now_ms offline_env) (num_or (tc_refreshExpiresAt ?tc) (Num 0)) (Some (Num 0)))"
    by (simp_all add: getTokenCookies_def getCookieNames_def stored_def truthy_str_def truthy_num_def
      str_or_def demo_config_def Let_def)
  have "\<exists>evs. trace (snd (getSession offline_env demo_config ?w))
           = trace ?w @ CallRefresh (str_or (tc_refreshToken ?tc) []) # evs"
    using getSession_unknown_expiry [OF refl a b, of offline_env] unfolding if_P [OF c]
    by (rule conjunct2)
  then have 2: "\<exists>evs. trace (snd (getSession offline_env demo_config ?w)) = CallRefresh ''r1'' # evs"
    unfolding r by (simp add: stored_def)
  from 1 2 show ?thesis by (rule conjI)
qed

lemma buildSession_tokens:
  assumes "buildSession e a i ae re client = Inr s"
  shows "idToken s = str_coalesce i a" and "accessToken s = a" and "idToken s \<noteq> None"
proof -
  from assms obtain cl where d: "decodeToken e (str_coalesce i a) = Inr cl"
    by (auto simp add: buildSession_def Let_def split: sum.splits)
  then have n: "str_coalesce i a \<noteq> None"
    by (auto simp add: decodeToken_def split: option.splits)
  from assms show "idToken s = str_coalesce i a" and "accessToken s = a"
    by (auto simp add: buildSession_def Let_def split: sum.splits)
  with n show "idToken s \<noteq> None" by simp
qed

lemma refreshBranch_session:
  assumes "fst (refreshBranch e config prefix rt w) = Some s"
  shows "idToken s \<noteq> None"
  using assms
  by (auto simp add: refreshBranch_def Let_def split: prod.splits sum.splits dest: buildSession_tokens(3))

text \<open>
  C9. Every session \<open>getSession\<close> returns has an \<open>idToken\<close>; when the session is built
  from stored credentials (the access token is still valid) that hold no id token, its
  \<open>idToken\<close> is its \<open>accessToken\<close>, the stored access token.
\<close>

theorem getSession_idToken_never_absent:
  assumes "fst (getSession e config w) = Inr (Some s)"
    and "tc = getTokenCookies (str_or (cookieName config) ''kc'') w"
  shows "idToken s \<noteq> None
         \<and> (truthy_str (tc_accessToken tc) \<and> truthy_num (tc_expiresAt tc)
              \<and> \<not> isTokenExpired (now_ms e) (num_or (tc_expiresAt tc) (Num 0))
                    (Some (num_or (refreshMarginSeconds config) (Num 60)))
              \<and> tc_idToken tc = None
            \<longrightarrow> idToken s = accessToken s \<and> accessToken s = tc_accessToken tc)"
proof (cases "truthy_str (tc_accessToken tc) \<and> truthy_num (tc_expiresAt tc)
              \<and> \<not> isTokenExpired (now_ms e) (num_or (tc_expiresAt tc) (Num 0))
                    (Some (num_or (refreshMarginSeconds config) (Num 60)))")
  case True
  then have "getSession e config w
      = (case buildSession e (tc_accessToken tc) (tc_idToken tc) (tc_expiresAt tc)
                (tc_refreshExpiresAt tc) (clientId config) of
           Inl err \<Rightarrow> (Inl err, w) | Inr s \<Rightarrow> (Inr (Some s), w))"
    unfolding getSession_def Let_def assms(2) [symmetric] by auto
  with assms(1) have b: "buildSession e (tc_accessToken tc) (tc_idToken tc) (tc_expiresAt tc)
                (tc_refreshExpiresAt tc) (clientId config) = Inr s"
    by (auto split: sum.splits)
  have "idToken s \<noteq> None" using b by (rule buildSession_tokens(3))
  moreover have "idToken s = accessToken s \<and> accessToken s = tc_accessToken tc" if "tc_idToken tc = None"
    using buildSession_tokens(1,2) [OF b] that by (simp add: str_coalesce_def)
  ultimately show ?thesis by blast
next
  case False
  then have "fst (getSession e config w) = Inr None
     \<or> fst (getSession e config w)
         = Inr (fst (refreshBranch e config (str_or (cookieName config) ''kc'')
                  (str_or (tc_refreshToken tc) []) w))"
    unfolding getSession_def Let_def assms(2) [symmetric] by (auto split: prod.splits)
  with assms(1) have "fst (refreshBranch e config (str_or (cookieName config) ''kc'')
                  (str_or (tc_refreshToken tc) []) w) = Some s"
    by auto
  then have "idToken s \<noteq> None" by (rule refreshBranch_session)
  with False show ?thesis by blast
qed

theorem getSession_idToken_never_absent_witness:
  "\<exists>s. fst (getSession (provider_env demo_discovery granted_reply) demo_config
            (stored [(''kc_at'', ''AT''), (''kc_exp'', ''1300'')])) = Inr (Some s)
       \<and> idToken s = Some ''AT'' \<and> accessToken s = Some ''AT''"
proof -
  let ?w = "stored [(''kc_at'', ''AT''), (''kc_exp'', ''1300'')]"
  let ?e = "provider_env demo_discovery granted_reply"
  have tc: "getTokenCookies (str_or (cookieName demo_config) ''kc'') ?w
      = \<lparr>tc_accessToken = Some ''AT'', tc_refreshToken = None, tc_idToken = None,
         tc_expiresAt = Some (Num 1300), tc_refreshExpiresAt = None\<rparr>"
    by (simp add: getTokenCookies_def getCookieNames_def stored_def truthy_str_def str_or_def
        demo_config_def parseInt_def is_space_def is_digit_def digits_value_def Let_def)
  have v: "\<not> isTokenExpired (now_ms ?e) (Num 1300) (Some (num_or (refreshMarginSeconds demo_config) (Num 60)))"
    by (simp add: isTokenExpired_def provider_env_def demo_config_def num_or_def js_ge_def js_sub_def
        epoch_seconds_def)
  have "\<exists>s. buildSession ?e (Some ''AT'') None (Some (Num 1300)) None (clientId demo_config) = Inr s"
    by (simp add: buildSession_def str_coalesce_def decodeToken_def provider_env_def demo_decode_def
        truthy_str_def extractUser_def opt_prop_def or_empty_array_def spread_elements_def
        spread_into_def Let_def)
  then obtain s where "fst (getSession ?e demo_config ?w) = Inr (Some s)"
    using v unfolding getSession_def Let_def tc
    by (auto simp add: truthy_str_def truthy_num_def num_or_def)
  from getSession_idToken_never_absent [OF this tc [symmetric]] v this
  show ?thesis by (auto simp add: truthy_str_def truthy_num_def num_or_def)
qed

section \<open>The merged claims\<close>

lemma spread_twice:
  "spread_into (spread_into (spread_into Map.empty cl) ac) cl = single_merge cl ac"
  by (rule ext) (simp add: spread_into_def single_merge_def map_add_def split: option.splits)

lemma extractUser_raw_claims: "extractUser c client = Inr u \<Longrightarrow> raw_claims u = c"
  by (auto simp add: extractUser_def Let_def split: sum.splits)

text \<open>
  C7. For a session built from an access token and an id token (present and not empty),
  both decodable, the claim map handed to \<open>extractUser\<close> is the single merge of the two
  claim sets: the session is the one built from \<open>single_merge\<close>, and in every returned
  session the user's raw claims give, at each key, the id token's claim when it has one
  and the access token's claim otherwise.
\<close>

theorem buildSession_merges_id_over_access:
  assumes "idTok \<noteq> []"
    and "decodeJwt e idTok = Some idClaims"
    and "decodeJwt e accessTok = Some accessClaims"
  shows "buildSession e (Some accessTok) (Some idTok) ae re client
           = (case extractUser (single_merge idClaims accessClaims) client of
                Inl err \<Rightarrow> Inl err
              | Inr u \<Rightarrow> Inr \<lparr>user = u, accessToken = Some accessTok, idToken = Some idTok,
                              accessTokenExpiresAt = num_or ae (Num 0),
                              refreshTokenExpiresAt = num_or re (Num 0)\<rparr>)
         \<and> (\<forall>s. buildSession e (Some accessTok) (Some idTok) ae re client = Inr s
               \<longrightarrow> (\<forall>k. raw_claims (user s) k
                         = (case idClaims k of Some v \<Rightarrow> Some v | None \<Rightarrow> accessClaims k)))"
proof -
  have b: "buildSession e (Some accessTok) (Some idTok) ae re client
           = (case extractUser (single_merge idClaims accessClaims) client of
                Inl err \<Rightarrow> Inl err
              | Inr u \<Rightarrow> Inr \<lparr>user = u, accessToken = Some accessTok, idToken = Some idTok,
                              accessTokenExpiresAt = num_or ae (Num 0),
                              refreshTokenExpiresAt = num_or re (Num 0)\<rparr>)"
    using assms
    by (simp add: buildSession_def Let_def str_coalesce_def decodeToken_def truthy_str_def spread_twice
        split: sum.splits)
  have "raw_claims (user s) k = (case idClaims k of Some v \<Rightarrow> Some v | None \<Rightarrow> accessClaims k)"
    if "buildSession e (Some accessTok) (Some idTok) ae re client = Inr s" for s k
  proof -
    from that b obtain u where "extractUser (single_merge idClaims accessClaims) client = Inr u"
      and "user s = u"
      by (auto split: sum.splits)
    then have "raw_claims (user s) = single_merge idClaims accessClaims"
      by (simp add: extractUser_raw_claims)
    then show ?thesis by (simp add: single_merge_def)
  qed
  with b show ?thesis by blast
qed

theorem buildSession_merges_id_over_access_witness:
  "\<exists>s. buildSession (provider_env demo_discovery granted_reply) (Some ''AT'') (Some ''ID'')
          (Some (Num 1300)) (Some (Num 2800)) ''app'' = Inr s
       \<and> raw_claims (user s) ''sub'' = Some (JStr ''alice'')
       \<and> raw_claims (user s) ''name'' = Some (JStr ''Alice'')
       \<and> raw_claims (user s) ''realm_access'' = Some (JObj [(''roles'', JArr [JStr ''admin''])])
       \<and> roles (user s) = [JStr ''admin'']"
proof -
  have d: "decodeJwt (provider_env demo_discovery granted_reply) ''ID''
             = Some (map_of [(''sub'', JStr ''alice''), (''name'', JStr ''Alice'')])"
    "decodeJwt (provider_env demo_discovery granted_reply) ''AT''
             = Some (map_of [(''sub'', JStr ''service''),
                         (''realm_access'', JObj [(''roles'', JArr [JStr ''admin''])])])"
    by (simp_all add: provider_env_def demo_decode_def)
  have n: "''ID'' \<noteq> []" by simp
  note t = buildSession_merges_id_over_access [OF n d, of "Some (Num 1300)" "Some (Num 2800)" "''app''"]
  have x: "extractUser (single_merge (map_of [(''sub'', JStr ''alice''), (''name'', JStr ''Alice'')])
             (map_of [(''sub'', JStr ''service''),
                         (''realm_access'', JObj [(''roles'', JArr [JStr ''admin''])])])) ''app''
           = Inr \<lparr>sub = Some (JStr ''alice''), name = Some (JStr ''Alice''), given_name = None,
                  family_name = None, preferred_username = None, email = None, email_verified = None,
                  roles = [JStr ''admin''], realm_roles = JArr [JStr ''admin''], client_roles = JArr [],
                  raw_claims = single_merge (map_of [(''sub'', JStr ''alice''), (''name'', JStr ''Alice'')])
             (map_of [(''sub'', JStr ''service''),
                         (''realm_access'', JObj [(''roles'', JArr [JStr ''admin''])])])\<rparr>"
    by (simp add: extractUser_def single_merge_def opt_prop_def or_empty_array_def spread_elements_def
        same_value_def Let_def)
  from t show ?thesis unfolding x by (simp add: single_merge_def)
qed

section \<open>Discovery failures and the cache\<close>

lemma find_falsy_required:
  assumes "f \<in> set requiredFields" and "\<not> truthy_str (endpoint_field eps f)"
  shows "find (\<lambda>field. \<not> truthy_str (endpoint_field eps field)) requiredFields \<noteq> None"
  using assms by (auto simp add: find_None_iff)

lemma endpoint_field_of_document:
  assumes "f \<in> set requiredFields"
  shows "endpoint_field
           \<lparr>authorization_endpoint = doc ''authorization_endpoint'',
            token_endpoint = doc ''token_endpoint'',
            userinfo_endpoint = doc ''userinfo_endpoint'',
            end_session_endpoint = doc ''end_session_endpoint'',
            jwks_uri = doc ''jwks_uri'',
            introspection_endpoint = doc ''introspection_endpoint'',
            issuer = doc ''issuer''\<rparr> f = doc f"
  using assms by (auto simp add: requiredFields_def endpoint_field_def)

lemma find_Some_holds: "find P xs = Some x \<Longrightarrow> P x \<and> x \<in> set xs"
  by (induction xs) (auto split: if_splits)

lemma discoverEndpoints_caches_complete:
  assumes "cache (snd (discoverEndpoints e u r w)) k = Some entry"
  shows "cache w k = Some entry
         \<or> (k = u @ '':'' @ r \<and> fst (discoverEndpoints e u r w) = Inr (endpoints entry)
            \<and> list_all (\<lambda>f. truthy_str (endpoint_field (endpoints entry) f)) requiredFields)"
  using assms
  by (auto simp add: discoverEndpoints_def Let_def find_None_iff list_all_iff
      split: option.splits if_splits dest: find_Some_holds)

text \<open>
  C8. When discovery fetches (no fresh cache entry) and the response is not 2xx, or a
  required field is absent from the parsed document, \<open>discoverEndpoints\<close> throws and
  the cache is as it was. (By \<open>discoverEndpoints_caches_complete\<close>, an entry the call
  adds to the cache has every required field.)
\<close>

theorem discoverEndpoints_failure_leaves_cache:
  assumes "cache_lookup e w (u @ '':'' @ r) = None"
    and "fetch_discovery e (getRealmUrl u r @ ''/.well-known/openid-configuration'') = Some resp"
    and "\<not> response_ok resp
         \<or> (\<exists>doc. body_json resp = Some doc \<and> (\<exists>f \<in> set requiredFields. doc f = None))"
  shows "(\<exists>err. fst (discoverEndpoints e u r w) = Inl err)
         \<and> cache (snd (discoverEndpoints e u r w)) = cache w"
proof (cases "response_ok resp")
  case False
  then show ?thesis using assms(1,2) by (simp add: discoverEndpoints_def Let_def)
next
  case True
  with assms(3) obtain doc f where d: "body_json resp = Some doc" "f \<in> set requiredFields" "doc f = None"
    by blast
  let ?eps = "\<lparr>authorization_endpoint = doc ''authorization_endpoint'',
            token_endpoint = doc ''token_endpoint'',
            userinfo_endpoint = doc ''userinfo_endpoint'',
            end_session_endpoint = doc ''end_session_endpoint'',
            jwks_uri = doc ''jwks_uri'',
            introspection_endpoint = doc ''introspection_endpoint'',
            issuer = doc ''issuer''\<rparr>"
  have "\<not> truthy_str (endpoint_field ?eps f)"
    using d(2,3) by (simp add: endpoint_field_of_document truthy_str_def)
  with d(2) have "find (\<lambda>field. \<not> truthy_str (endpoint_field ?eps field)) requiredFields \<noteq> None"
    by (rule find_falsy_required)
  then obtain g where "find (\<lambda>field. \<not> truthy_str (endpoint_field ?eps field)) requiredFields = Some g"
    by blast
  then show ?thesis using assms(1,2) True d(1) by (simp add: discoverEndpoints_def Let_def)
qed

theorem discoverEndpoints_failure_leaves_cache_witness:
  "(\<exists>err. fst (discoverEndpoints (provider_env (demo_discovery(''jwks_uri'' := None)) granted_reply)
               ''https://idp.test'' ''demo'' (stored [])) = Inl err)
   \<and> cache (snd (discoverEndpoints (provider_env (demo_discovery(''jwks_uri'' := None)) granted_reply)
               ''https://idp.test'' ''demo'' (stored []))) = Map.empty"
proof -
  let ?e = "provider_env (demo_discovery(''jwks_uri'' := None)) granted_reply"
  have 1: "cache_lookup ?e (stored []) (''https://idp.test'' @ '':'' @ ''demo'') = None"
    by (simp add: cache_lookup_def stored_def)
  have 2: "fetch_discovery ?e (getRealmUrl ''https://idp.test'' ''demo'' @ ''/.well-known/openid-configuration'')
      = Some \<lparr>status = 200, statusText = ''OK'', body_text = [],
               body_json = Some (demo_discovery(''jwks_uri'' := None))\<rparr>"
    by (simp add: provider_env_def)
  have 3: "\<not> response_ok \<lparr>status = 200, statusText = ''OK'', body_text = [],
               body_json = Some (demo_discovery(''jwks_uri'' := None))\<rparr>
     \<or> (\<exists>doc. body_json \<lparr>status = 200, statusText = ''OK'', body_text = [],
               body_json = Some (demo_discovery(''jwks_uri'' := None))\<rparr> = Some doc
           \<and> (\<exists>f \<in> set requiredFields. doc f = None))"
    by (simp add: requiredFields_def)
  from discoverEndpoints_failure_leaves_cache [OF 1 2 3] show ?thesis
    by (simp add: stored_def)
qed

section \<open>The callback handler: the PKCE record\<close>

lemma exchangeCodeForTokens_jar: "jar (snd (exchangeCodeForTokens e config code cv rd w)) = jar w"
proof -
  obtain res w1 where d: "discoverEndpoints e (url config) (realm config) (emit (CallExchangeCode code cv rd) w) = (res, w1)"
    by (cases "discoverEndpoints e (url config) (realm config) (emit (CallExchangeCode code cv rd) w)")
  have "jar w1 = jar w"
    using discoverEndpoints_jar [of e "url config" "realm config" "emit (CallExchangeCode code cv rd) w"] d
    by simp
  then show ?thesis
    by (simp add: exchangeCodeForTokens_def d Let_def split: sum.splits option.splits)
qed

lemma clearPKCECookies_jar:
  "jar (clearPKCECookies prefix w) (prefix @ ''_cv'') = None"
  "jar (clearPKCECookies prefix w) (prefix @ ''_state'') = None"
  "jar (clearPKCECookies prefix w) (prefix @ ''_return'') = None"
  by (simp_all add: clearPKCECookies_def cookie_delete_def getCookieNames_def Let_def)

lemma exchangeCodeForTokens_traced:
  "\<exists>evs. trace (snd (exchangeCodeForTokens e config code cv rd w))
           = trace w @ CallExchangeCode code cv rd # evs"
proof -
  obtain res w1 where d: "discoverEndpoints e (url config) (realm config) (emit (CallExchangeCode code cv rd) w) = (res, w1)"
    by (cases "discoverEndpoints e (url config) (realm config) (emit (CallExchangeCode code cv rd) w)")
  have "\<exists>evs. trace w1 = trace w @ CallExchangeCode code cv rd # evs"
    using discoverEndpoints_trace [of e "url config" "realm config" "emit (CallExchangeCode code cv rd) w"] d
    by auto
  then show ?thesis
    by (auto simp add: exchangeCodeForTokens_def d Let_def split: sum.splits option.splits)
qed

lemmas callback_eval_defs =
  callbackHandler_def searchParams_get_def getPKCECookies_def exchangeCodeForTokens_def
  normalizeTokenResponse_def setTokenCookies_def clearPKCECookies_def cookie_set_def
  cookie_delete_def is_store_write_def

text \<open>
  C4. The PKCE cookies are claimed to be deleted whether the exchange succeeds or fails.
  When the token endpoint rejects the code, the handler answers 500 and the three
  cookies are still in the store: nothing was written or deleted.
\<close>

theorem callback_pkce_record_counterexample:
  "fst (callbackHandler (provider_env demo_discovery rejected_reply) demo_config
          \<lparr>origin = ''https://app.test'', query = [(''code'', ''c1''), (''state'', ''nonce'')]\<rparr>
          (stored [(''kc_state'', ''nonce''), (''kc_cv'', ''verifier''), (''kc_return'', ''/home'')]))
     = JsonError 500 (TokenExchangeFailure (TokenExchangeFailed 400 ''Bad Request'' ''invalid_grant''))
   \<and> jar (snd (callbackHandler (provider_env demo_discovery rejected_reply) demo_config
          \<lparr>origin = ''https://app.test'', query = [(''code'', ''c1''), (''state'', ''nonce'')]\<rparr>
          (stored [(''kc_state'', ''nonce''), (''kc_cv'', ''verifier''), (''kc_return'', ''/home'')])))
        ''kc_cv'' = Some ''verifier''
   \<and> jar (snd (callbackHandler (provider_env demo_discovery rejected_reply) demo_config
          \<lparr>origin = ''https://app.test'', query = [(''code'', ''c1''), (''state'', ''nonce'')]\<rparr>
          (stored [(''kc_state'', ''nonce''), (''kc_cv'', ''verifier''), (''kc_return'', ''/home'')])))
        ''kc_state'' = Some ''nonce''
   \<and> jar (snd (callbackHandler (provider_env demo_discovery rejected_reply) demo_config
          \<lparr>origin = ''https://app.test'', query = [(''code'', ''c1''), (''state'', ''nonce'')]\<rparr>
          (stored [(''kc_state'', ''nonce''), (''kc_cv'', ''verifier''), (''kc_return'', ''/home'')])))
        ''kc_return'' = Some ''/home''
   \<and> filter is_store_write (trace (snd (callbackHandler (provider_env demo_discovery rejected_reply) demo_config
          \<lparr>origin = ''https://app.test'', query = [(''code'', ''c1''), (''state'', ''nonce'')]\<rparr>
          (stored [(''kc_state'', ''nonce''), (''kc_cv'', ''verifier''), (''kc_return'', ''/home'')])))) = []"
  by (simp add: eval_defs callback_eval_defs)

text \<open>
  C4, as the code has it: for a callback that passes the error, code, state and
  code-verifier checks, the three PKCE cookies are deleted when the code-for-tokens
  exchange succeeds; when it throws, the handler answers 500 with the error and the
  cookie store is as it was.
\<close>

theorem callback_pkce_record:
  assumes "\<not> truthy_str (searchParams_get req ''error'')"
    and "searchParams_get req ''code'' = Some code" and "code \<noteq> []"
    and "searchParams_get req ''state'' = Some st" and "st \<noteq> []"
    and "prefix = str_or (cookieName config) ''kc''"
    and "jar w (prefix @ ''_state'') = Some st"
    and "jar w (prefix @ ''_cv'') = Some cv" and "cv \<noteq> []"
    and "rd = str_or (redirectUri config)
                (origin req @ str_or (authBasePath config) ''/api/auth'' @ ''/callback'')"
  shows "(\<forall>tokens w1. exchangeCodeForTokens e config code cv rd w = (Inr tokens, w1)
            \<longrightarrow> jar (snd (callbackHandler e config req w)) (prefix @ ''_cv'') = None
                \<and> jar (snd (callbackHandler e config req w)) (prefix @ ''_state'') = None
                \<and> jar (snd (callbackHandler e config req w)) (prefix @ ''_return'') = None)
         \<and> (\<forall>ex w1. exchangeCodeForTokens e config code cv rd w = (Inl ex, w1)
            \<longrightarrow> callbackHandler e config req w = (JsonError 500 (TokenExchangeFailure ex), w1)
                \<and> jar w1 = jar w)"
proof -
  have c: "callbackHandler e config req w
      = (case exchangeCodeForTokens e config code cv rd w of
           (Inl ex, w1) \<Rightarrow> (JsonError 500 (TokenExchangeFailure ex), w1)
         | (Inr tokens, w1) \<Rightarrow>
             (let w3 = clearPKCECookies prefix (setTokenCookies tokens prefix w1)
              in case resolve_url e (str_or (jar w (prefix @ ''_return'')) ''/'') (origin req) of
                   None \<Rightarrow> (JsonError 500 (TokenExchangeFailure TypeError), w3)
                 | Some target \<Rightarrow> (Redirect target [], w3)))"
    using assms(1-5,7-9) unfolding assms(6,10)
    by (simp add: callbackHandler_def Let_def getPKCECookies_def getCookieNames_def truthy_str_def
        str_or_def [of "Some code"] str_or_def [of "Some cv"] split: prod.splits sum.splits)
  have ok: "jar (snd (callbackHandler e config req w)) (prefix @ ''_cv'') = None
                \<and> jar (snd (callbackHandler e config req w)) (prefix @ ''_state'') = None
                \<and> jar (snd (callbackHandler e config req w)) (prefix @ ''_return'') = None"
    if "exchangeCodeForTokens e config code cv rd w = (Inr tokens, w1)" for tokens w1
    unfolding c that by (simp add: Let_def clearPKCECookies_jar split: option.splits)
  have bad: "callbackHandler e config req w = (JsonError 500 (TokenExchangeFailure ex), w1) \<and> jar w1 = jar w"
    if "exchangeCodeForTokens e config code cv rd w = (Inl ex, w1)" for ex w1
    using exchangeCodeForTokens_jar [of e config code cv rd w] unfolding c that by simp
  from ok bad show ?thesis by blast
qed

theorem callback_pkce_record_witness:
  "jar (snd (callbackHandler (provider_env demo_discovery granted_reply) demo_config
          \<lparr>origin = ''https://app.test'', query = [(''code'', ''c1''), (''state'', ''nonce'')]\<rparr>
          (stored [(''kc_state'', ''nonce''), (''kc_cv'', ''verifier''), (''kc_return'', ''/home'')])))
        ''kc_cv'' = None
   \<and> jar (snd (callbackHandler (provider_env demo_discovery granted_reply) demo_config
          \<lparr>origin = ''https://app.test'', query = [(''code'', ''c1''), (''state'', ''nonce'')]\<rparr>
          (stored [(''kc_state'', ''nonce''), (''kc_cv'', ''verifier''), (''kc_return'', ''/home'')])))
        ''kc_state'' = None
   \<and> jar (snd (callbackHandler (provider_env demo_discovery granted_reply) demo_config
          \<lparr>origin = ''https://app.test'', query = [(''code'', ''c1''), (''state'', ''nonce'')]\<rparr>
          (stored [(''kc_state'', ''nonce''), (''kc_cv'', ''verifier''), (''kc_return'', ''/home'')])))
        ''kc_return'' = None"
proof -
  let ?e = "provider_env demo_discovery granted_reply"
  let ?req = "\<lparr>origin = ''https://app.test'', query = [(''code'', ''c1''), (''state'', ''nonce'')]\<rparr>"
  let ?w = "stored [(''kc_state'', ''nonce''), (''kc_cv'', ''verifier''), (''kc_return'', ''/home'')]"
  have "\<exists>tokens w1. exchangeCodeForTokens ?e demo_config ''c1'' ''verifier''
           ''https://app.test/api/auth/callback'' ?w = (Inr tokens, w1)"
    by (simp add: eval_defs callback_eval_defs)
  then obtain tokens w1 where x: "exchangeCodeForTokens ?e demo_config ''c1'' ''verifier''
           ''https://app.test/api/auth/callback'' ?w = (Inr tokens, w1)"
    by blast
  have "(\<forall>tokens w1. exchangeCodeForTokens ?e demo_config ''c1'' ''verifier''
           ''https://app.test/api/auth/callback'' ?w = (Inr tokens, w1)
            \<longrightarrow> jar (snd (callbackHandler ?e demo_config ?req ?w)) (''kc'' @ ''_cv'') = None
                \<and> jar (snd (callbackHandler ?e demo_config ?req ?w)) (''kc'' @ ''_state'') = None
                \<and> jar (snd (callbackHandler ?e demo_config ?req ?w)) (''kc'' @ ''_return'') = None)"
    using callback_pkce_record [of ?req "''c1''" "''nonce''" "''kc''" demo_config ?w "''verifier''"
       "''https://app.test/api/auth/callback''" ?e]
    by (simp add: searchParams_get_def truthy_str_def str_or_def demo_config_def stored_def)
  with x show ?thesis by simp
qed

end
